theory Spec2Isabelle
  imports Complex_Main "HOL-Library.Word" "HOL-Library.Signed_Division"
begin

section \<open>The calculator exercise\<close>

text \<open>
  The program is \<^verbatim>\<open>Chapter1/Exercises/Calculator/calculator.cpp\<close>: four arithmetic
  functions on \<^verbatim>\<open>int\<close> and a \<^verbatim>\<open>main\<close> that reads two integers and a character,
  dispatches on the character with a \<^verbatim>\<open>switch\<close> and prints the result.
\<close>

subsection \<open>Machine integers\<close>

text \<open>
  \<^verbatim>\<open>int\<close> is taken as a 32-bit two's complement integer, read through \<open>sint\<close>. The
  language leaves signed overflow undefined; the model computes what the usual targets
  compute, the result reduced to 32 bits. Every statement below that relates a result to
  the mathematical integers says where the result is representable.
\<close>

type_synonym cint = "32 word"

definition INT_MIN :: int where
  "INT_MIN = - (2 ^ 31)"

definition INT_MAX :: int where
  "INT_MAX = 2 ^ 31 - 1"

definition representable :: "int \<Rightarrow> bool" where
  "representable i = (INT_MIN \<le> i \<and> i \<le> INT_MAX)"

definition wrap_int :: "int \<Rightarrow> int" where
  "wrap_int i = signed_take_bit 31 i"

subsection \<open>The arithmetic functions\<close>

text \<open>
  \<^verbatim>\<open>int add(int a, int b){ return a+b; }\<close> and its three siblings. The source's
  \<^verbatim>\<open>divide\<close> is named \<open>divide_c\<close> here. Integer division has no result in
  two cases, in which the machine stops the program instead of returning: a divisor of zero,
  and \<open>INT_MIN\<close> divided by \<open>- 1\<close>, whose quotient does not fit an \<^verbatim>\<open>int\<close>. \<open>divide_c\<close>
  returns a fault in both. In every other case it is the quotient of C++, which rounds
  towards zero.
\<close>

datatype fault = Division_By_Zero | Quotient_Overflow

definition add :: "cint \<Rightarrow> cint \<Rightarrow> cint" where
  "add a b = a + b"

definition subtract :: "cint \<Rightarrow> cint \<Rightarrow> cint" where
  "subtract a b = a - b"

definition multiply :: "cint \<Rightarrow> cint \<Rightarrow> cint" where
  "multiply a b = a * b"

definition divide_c :: "cint \<Rightarrow> cint \<Rightarrow> fault + cint" where
  "divide_c a b =
     (if b = 0 then Inl Division_By_Zero
      else if sint a = INT_MIN \<and> sint b = - 1 then Inl Quotient_Overflow
      else Inr (word_of_int (sint a sdiv sint b)))"

text \<open>
  The specification's words for the quotient, "integer division, truncating toward zero":
  the exact quotient of the two integers, with its fractional part dropped.
\<close>

definition truncating_quotient :: "int \<Rightarrow> int \<Rightarrow> int" where
  "truncating_quotient x y =
     (let q = real_of_int x / real_of_int y in if 0 \<le> q then \<lfloor>q\<rfloor> else \<lceil>q\<rceil>)"

subsection \<open>Standard output\<close>

text \<open>
  \<^verbatim>\<open>std::cout << result\<close> writes the decimal digits of a signed integer, with a
  leading minus sign when it is negative; \<^verbatim>\<open>std::endl\<close> writes a newline.
\<close>

function dec_digits :: "nat \<Rightarrow> string" where
  "dec_digits n =
     (if n < 10 then [''0123456789'' ! n]
      else dec_digits (n div 10) @ [''0123456789'' ! (n mod 10)])"
  by pat_completeness auto
termination
  by (relation "measure id") auto

declare dec_digits.simps [simp del]

definition decimal :: "int \<Rightarrow> string" where
  "decimal i = (if i < 0 then CHR ''-'' # dec_digits (nat (- i)) else dec_digits (nat i))"

definition show_int :: "cint \<Rightarrow> string" where
  "show_int r = decimal (sint r)"

definition endl :: string where
  "endl = [CHR 0x0A]"

subsection \<open>The program state\<close>

text \<open>
  The local \<^verbatim>\<open>int result;\<close> is declared without an initialiser: it holds no value
  (\<open>None\<close>) until a statement assigns one. \<open>cout\<close> is what has been written to standard
  output. \<open>calls\<close> is not in the source: it records, in order, which of the four functions
  \<^verbatim>\<open>main\<close> has called, so that statements about which operation runs can be made.
\<close>

datatype fname = Add | Subtract | Multiply | Divide

record state =
  result :: "cint option"
  cout :: string
  calls :: "fname list"

definition init :: state where
  "init = \<lparr>result = None, cout = [], calls = []\<rparr>"

text \<open>A statement either runs on to the next one or returns from \<^verbatim>\<open>main\<close> with a status.\<close>

datatype flow = Next state | Return cint state

text \<open>\<^verbatim>\<open>result = f(a,b);\<close> for one of the total functions \<open>f\<close>, with its value \<open>v\<close>.\<close>

definition assign :: "fname \<Rightarrow> cint \<Rightarrow> state \<Rightarrow> state" where
  "assign f v s = s\<lparr>result := Some v, calls := calls s @ [f]\<rparr>"

definition print_line :: "string \<Rightarrow> state \<Rightarrow> state" where
  "print_line l s = s\<lparr>cout := cout s @ l @ endl\<rparr>"

subsection \<open>The switch\<close>

text \<open>
  The body of the \<^verbatim>\<open>switch\<close> is one statement list with four labels and no
  \<^verbatim>\<open>break\<close>; entering at a label runs everything from there to the end of the body.
  \<^verbatim>\<open>
    case '+': result = add(a,b);
    case '-': result = subtract(a,b);
    case '*': result = multiply(a,b);
    case '/': if (b==0) { std::cout << "Cannot divide by 0!" << std::endl; return -1; }
              else { result = multiply(a,b); }
  \<close>
  There is no \<^verbatim>\<open>default\<close> label: another character skips the body.
\<close>

definition case_slash :: "cint \<Rightarrow> cint \<Rightarrow> state \<Rightarrow> flow" where
  "case_slash a b s =
     (if b = 0 then Return (- 1) (print_line ''Cannot divide by 0!'' s)
      else Next (assign Multiply (multiply a b) s))"

definition case_star :: "cint \<Rightarrow> cint \<Rightarrow> state \<Rightarrow> flow" where
  "case_star a b s = case_slash a b (assign Multiply (multiply a b) s)"

definition case_minus :: "cint \<Rightarrow> cint \<Rightarrow> state \<Rightarrow> flow" where
  "case_minus a b s = case_star a b (assign Subtract (subtract a b) s)"

definition case_plus :: "cint \<Rightarrow> cint \<Rightarrow> state \<Rightarrow> flow" where
  "case_plus a b s = case_minus a b (assign Add (add a b) s)"

definition switch :: "char \<Rightarrow> cint \<Rightarrow> cint \<Rightarrow> state \<Rightarrow> flow" where
  "switch operation a b s =
     (if operation = CHR ''+'' then case_plus a b s
      else if operation = CHR ''-'' then case_minus a b s
      else if operation = CHR ''*'' then case_star a b s
      else if operation = CHR ''/'' then case_slash a b s
      else Next s)"

subsection \<open>The program\<close>

text \<open>
  \<open>main a b operation\<close> is the run of \<^verbatim>\<open>main\<close> once the three extractions from
  \<^verbatim>\<open>std::cin\<close> have delivered \<open>a\<close>, \<open>b\<close> and \<open>operation\<close>. It ends in one of two ways:
  \<^verbatim>\<open>main\<close> returns a status, or \<^verbatim>\<open>std::cout << result\<close> is reached while
  \<^verbatim>\<open>result\<close> has never been assigned, and what is printed is not determined by the
  program.
\<close>

datatype outcome =
    Exited (status: cint) (stdout: string) (trace: "fname list")
  | Uninitialized_Read (stdout: string) (trace: "fname list")

definition main :: "cint \<Rightarrow> cint \<Rightarrow> char \<Rightarrow> outcome" where
  "main a b operation =
     (case switch operation a b init of
        Return c s \<Rightarrow> Exited c (cout s) (calls s)
      | Next s \<Rightarrow>
          (case result s of
             None \<Rightarrow> Uninitialized_Read (cout s) (calls s)
           | Some r \<Rightarrow> Exited 0 (cout (print_line (show_int r) s)) (calls s)))"

definition recognized :: "char \<Rightarrow> bool" where
  "recognized operation = (operation \<in> {CHR ''+'', CHR ''-'', CHR ''*'', CHR ''/''})"

section \<open>Auxiliary facts\<close>

subsection \<open>Reading the results as integers\<close>

lemma sint_add: "sint (add a b) = wrap_int (sint a + sint b)"
  by (simp add: add_def wrap_int_def sint_word_ariths)

lemma sint_subtract: "sint (subtract a b) = wrap_int (sint a - sint b)"
  by (simp add: subtract_def wrap_int_def sint_word_ariths)

lemma sint_multiply: "sint (multiply a b) = wrap_int (sint a * sint b)"
  by (simp add: multiply_def wrap_int_def sint_word_ariths)

lemma sint_word_of_int_wrap: "sint (word_of_int i :: cint) = wrap_int i"
  by (simp add: wrap_int_def sint_sbintrunc')

lemma wrap_int_representable: "representable i \<Longrightarrow> wrap_int i = i"
  by (simp add: representable_def wrap_int_def INT_MIN_def INT_MAX_def
      signed_take_bit_int_eq_self_iff)

lemma sint_representable: "representable (sint (a :: cint))"
  using sint_ge [of a] sint_lt [of a]
  by (simp add: representable_def INT_MIN_def INT_MAX_def)

subsection \<open>The machine quotient drops the fractional part\<close>

lemma div_neg_swap: "x div (- y) = (- x) div y"
  for x y :: int
  by (metis div_minus_minus minus_minus)

lemma real_quot_nonneg_iff:
  "y \<noteq> 0 \<Longrightarrow>
     (0 \<le> real_of_int x / real_of_int y) = ((0 \<le> x \<and> 0 < y) \<or> (x \<le> 0 \<and> y < 0))"
  by (auto simp: zero_le_divide_iff)

lemma sdiv_truncating_quotient:
  fixes x y :: int
  assumes y: "y \<noteq> 0"
  shows "x sdiv y = truncating_quotient x y"
proof -
  consider (same_pos) "0 \<le> x" "0 < y" | (same_neg) "x \<le> 0" "y < 0"
    | (pos_neg) "0 < x" "y < 0" | (neg_pos) "x < 0" "0 < y"
    using y by linarith
  then show ?thesis
  proof cases
    case same_pos
    then show ?thesis
      by (simp add: truncating_quotient_def real_quot_nonneg_iff signed_divide_int_def
          floor_divide_of_int_eq sgn_if)
  next
    case same_neg
    then show ?thesis
      by (simp add: truncating_quotient_def real_quot_nonneg_iff signed_divide_int_def
          floor_divide_of_int_eq sgn_if)
  next
    case pos_neg
    then show ?thesis
      by (simp add: truncating_quotient_def real_quot_nonneg_iff signed_divide_int_def
          ceiling_divide_eq_div sgn_if div_neg_swap)
  next
    case neg_pos
    then show ?thesis
      by (simp add: truncating_quotient_def real_quot_nonneg_iff signed_divide_int_def
          ceiling_divide_eq_div sgn_if)
  qed
qed

subsection \<open>Where the quotient fits\<close>

lemma half_bound:
  fixes x :: int
  assumes x: "representable x"
  shows "\<bar>x\<bar> div 2 \<le> 2 ^ 30"
proof -
  from x have "\<bar>x\<bar> \<le> 2147483648"
    by (auto simp: representable_def INT_MIN_def INT_MAX_def abs_if)
  then have "\<bar>x\<bar> div 2 \<le> 2147483648 div 2"
    by (intro zdiv_mono1) simp_all
  then show ?thesis by simp
qed

lemma signed_bound:
  fixes s q :: int
  assumes s: "s = - 1 \<or> s = 0 \<or> s = 1" and q: "0 \<le> q" "q \<le> 2 ^ 30"
  shows "representable (s * q)"
  using s q by (auto simp: representable_def INT_MIN_def INT_MAX_def)

lemma sdiv_abs_bound:
  fixes x y q :: int
  assumes "0 \<le> q" and "q \<le> 2 ^ 30"
  shows "representable (sgn x * sgn y * q)"
proof -
  have "sgn x * sgn y = - 1 \<or> sgn x * sgn y = 0 \<or> sgn x * sgn y = 1"
    by (simp add: sgn_if)
  then show ?thesis
    using assms by (rule signed_bound)
qed

lemma sdiv_representable:
  fixes x y :: int
  assumes x: "representable x" and y: "y \<noteq> 0" and no: "\<not> (x = INT_MIN \<and> y = - 1)"
  shows "representable (x sdiv y)"
proof -
  consider (one) "y = 1" | (minus_one) "y = - 1" | (big) "2 \<le> \<bar>y\<bar>"
    using y by linarith
  then show ?thesis
  proof cases
    case one
    with x show ?thesis by simp
  next
    case minus_one
    with x no show ?thesis
      by (simp add: representable_def INT_MIN_def INT_MAX_def)
  next
    case big
    have "\<bar>x\<bar> div \<bar>y\<bar> \<le> \<bar>x\<bar> div 2"
      using big by (intro zdiv_mono2) simp_all
    moreover have "\<bar>x\<bar> div 2 \<le> 2 ^ 30"
      using x by (rule half_bound)
    ultimately have "\<bar>x\<bar> div \<bar>y\<bar> \<le> 2 ^ 30"
      by (rule order_trans)
    moreover have "0 \<le> \<bar>x\<bar> div \<bar>y\<bar>"
      by (simp add: div_int_pos_iff)
    ultimately show ?thesis
      unfolding signed_divide_int_def by (intro sdiv_abs_bound)
  qed
qed

lemma divide_c_quotient:
  assumes b: "b \<noteq> 0" and no: "\<not> (sint a = INT_MIN \<and> sint b = - 1)"
  shows "\<exists>q. divide_c a b = Inr q \<and> sint q = truncating_quotient (sint a) (sint b)"
proof -
  from b have nz: "sint b \<noteq> 0"
    by (simp add: signed_eq_0_iff)
  then have tq: "sint a sdiv sint b = truncating_quotient (sint a) (sint b)"
    by (rule sdiv_truncating_quotient)
  have "representable (sint a sdiv sint b)"
    using sint_representable nz no by (rule sdiv_representable)
  then have "wrap_int (sint a sdiv sint b) = sint a sdiv sint b"
    by (rule wrap_int_representable)
  with b no tq show ?thesis
    by (simp add: divide_c_def sint_word_of_int_wrap)
qed

subsection \<open>Unfolding a run\<close>

lemmas run_defs = main_def switch_def case_plus_def case_minus_def case_star_def
  case_slash_def assign_def print_line_def init_def

section \<open>The results of the arithmetic functions\<close>

text \<open>
  Claim C3 says that for all \<^verbatim>\<open>int\<close> values \<open>a\<close> and \<open>b\<close>, with \<open>b\<close> other than zero
  for the quotient, the four functions return the sum, the difference, the product and the
  quotient truncated towards zero. That fails at one pair: for \<open>INT_MIN\<close> and \<open>- 1\<close> the
  divisor is not zero, the truncated quotient is \<open>2147483648\<close>, which no \<^verbatim>\<open>int\<close> holds,
  and \<open>divide_c\<close> does not return.
\<close>

theorem divide_min_by_minus_one_counterexample:
  "(- 1 :: cint) \<noteq> 0
   \<and> divide_c (- 2147483648) (- 1) = Inl Quotient_Overflow
   \<and> truncating_quotient (sint (- 2147483648 :: cint)) (sint (- 1 :: cint)) = 2147483648
   \<and> \<not> representable 2147483648"
  by (simp add: divide_c_def INT_MIN_def INT_MAX_def representable_def
      truncating_quotient_def)

text \<open>
  Claim C3, amended. For all \<^verbatim>\<open>int\<close> values \<open>a\<close> and \<open>b\<close>, \<open>add\<close> returns the sum,
  \<open>subtract\<close> the difference and \<open>multiply\<close> the product of its arguments, each as
  \<^verbatim>\<open>int\<close> arithmetic computes it: the mathematical result reduced to 32 bits, which is
  the mathematical result itself wherever that fits an \<^verbatim>\<open>int\<close>. For \<open>b\<close> other than
  zero, and unless \<open>a\<close> is \<open>INT_MIN\<close> and \<open>b\<close> is \<open>- 1\<close>, \<open>divide_c\<close> returns the quotient of
  \<open>a\<close> by \<open>b\<close> truncated towards zero.
\<close>

theorem arithmetic_functions_correct:
  "sint (add a b) = wrap_int (sint a + sint b)
   \<and> sint (subtract a b) = wrap_int (sint a - sint b)
   \<and> sint (multiply a b) = wrap_int (sint a * sint b)
   \<and> (representable (sint a + sint b) \<longrightarrow> sint (add a b) = sint a + sint b)
   \<and> (representable (sint a - sint b) \<longrightarrow> sint (subtract a b) = sint a - sint b)
   \<and> (representable (sint a * sint b) \<longrightarrow> sint (multiply a b) = sint a * sint b)
   \<and> (b \<noteq> 0 \<and> \<not> (sint a = INT_MIN \<and> sint b = - 1) \<longrightarrow>
        (\<exists>q. divide_c a b = Inr q \<and> sint q = truncating_quotient (sint a) (sint b)))"
  using divide_c_quotient [of b a]
  by (auto simp: sint_add sint_subtract sint_multiply wrap_int_representable)

theorem arithmetic_functions_correct_witness:
  "(2 :: cint) \<noteq> 0
   \<and> \<not> (sint (- 7 :: cint) = INT_MIN \<and> sint (2 :: cint) = - 1)
   \<and> representable (sint (- 7 :: cint) + sint (2 :: cint))
   \<and> representable (sint (- 7 :: cint) - sint (2 :: cint))
   \<and> representable (sint (- 7 :: cint) * sint (2 :: cint))
   \<and> sint (add (- 7) 2) = - 5
   \<and> sint (subtract (- 7) 2) = - 9
   \<and> sint (multiply (- 7) 2) = - 14
   \<and> (\<exists>q. divide_c (- 7) 2 = Inr q \<and> sint q = - 3)"
proof -
  have tq: "truncating_quotient (- 7) 2 = - 3"
    by (simp add: truncating_quotient_def)
  have rep: "representable (- 5)" "representable (- 9)" "representable (- 14)"
    by (simp_all add: representable_def INT_MIN_def INT_MAX_def)
  show ?thesis
    using arithmetic_functions_correct [of "- 7" 2] by (simp add: tq rep)
qed

section \<open>What the program does\<close>

text \<open>
  Claim C10. For a recognized operator and \<open>b\<close> other than zero the program prints the product
  of \<open>a\<close> and \<open>b\<close> (reduced to 32 bits; the product itself where it fits an \<^verbatim>\<open>int\<close>),
  followed by a newline, and returns 0. The last call is the one to \<open>multiply\<close> in the
  \<^verbatim>\<open>'/'\<close> case, and \<open>divide_c\<close> is never called.
\<close>

theorem main_prints_product:
  assumes "recognized operation" and "b \<noteq> 0"
  shows "(\<exists>tr. main a b operation = Exited 0 (decimal (wrap_int (sint a * sint b)) @ endl) tr
            \<and> Divide \<notin> set tr \<and> last tr = Multiply)
         \<and> (representable (sint a * sint b) \<longrightarrow>
              stdout (main a b operation) = decimal (sint a * sint b) @ endl)"
  using assms
  by (auto simp: recognized_def run_defs show_int_def sint_multiply wrap_int_representable)

theorem main_prints_product_witness:
  "recognized CHR ''-'' \<and> (5 :: cint) \<noteq> 0
   \<and> representable (sint (- 4 :: cint) * sint (5 :: cint))
   \<and> (\<exists>tr. main (- 4) 5 CHR ''-'' = Exited 0 (''-20'' @ endl) tr
         \<and> Divide \<notin> set tr \<and> last tr = Multiply)
   \<and> stdout (main (- 4) 5 CHR ''-'') = ''-20'' @ endl"
proof -
  have op: "recognized CHR ''-''"
    by (simp add: recognized_def)
  have nz: "(5 :: cint) \<noteq> 0"
    by simp
  have rep: "representable (- 20)"
    by (simp add: representable_def INT_MIN_def INT_MAX_def)
  have wr: "wrap_int (- 20) = - 20"
    using rep by (rule wrap_int_representable)
  have dec: "decimal (- 20) = ''-20''"
    by (simp add: decimal_def dec_digits.simps [of 20] dec_digits.simps [of 2])
  show ?thesis
    using main_prints_product [OF op nz, of "- 4"] op by (simp add: rep wr dec)
qed

text \<open>
  Claim C9. For a recognized operator and \<open>b = 0\<close> the program prints the diagnostic and
  returns \<open>- 1\<close>, whichever of the four operators was given: every label runs on into the
  zero test of the \<^verbatim>\<open>'/'\<close> case.
\<close>

theorem zero_divisor_diagnostic:
  assumes "recognized operation" and "b = 0"
  shows "\<exists>tr. main a b operation = Exited (- 1) (''Cannot divide by 0!'' @ endl) tr"
  using assms
  by (auto simp: recognized_def run_defs)

theorem zero_divisor_diagnostic_witness:
  "recognized CHR ''*'' \<and> (0 :: cint) = 0
   \<and> (\<exists>tr. main 8 0 CHR ''*'' = Exited (- 1) (''Cannot divide by 0!'' @ endl) tr)"
proof -
  have op: "recognized CHR ''*''"
    by (simp add: recognized_def)
  show ?thesis
    using zero_divisor_diagnostic [OF op refl, of 8] op by simp
qed

text \<open>
  Claim C8. For an operator that is none of the four, no statement of the switch runs, and
  the program reaches \<^verbatim>\<open>std::cout << result\<close> with \<^verbatim>\<open>result\<close> never assigned.
\<close>

theorem unrecognized_reads_uninitialized:
  assumes "\<not> recognized operation"
  shows "switch operation a b init = Next init
         \<and> main a b operation = Uninitialized_Read [] []"
  using assms
  by (auto simp: recognized_def run_defs)

theorem unrecognized_reads_uninitialized_witness:
  "\<not> recognized CHR ''%''
   \<and> switch CHR ''%'' 6 3 init = Next init
   \<and> main 6 3 CHR ''%'' = Uninitialized_Read [] []"
proof -
  have op: "\<not> recognized CHR ''%''"
    by (simp add: recognized_def)
  show ?thesis
    using unrecognized_reads_uninitialized [OF op, of 6 3] op by simp
qed

section \<open>The scenarios\<close>

text \<open>
  Claim C6. On \<open>a = 6\<close>, \<open>b = 3\<close> and \<^verbatim>\<open>'*'\<close> the program prints 18 and a newline, and
  returns 0.
\<close>

theorem scenario_6_3_star:
  "main 6 3 CHR ''*'' = Exited 0 (''18'' @ endl) [Multiply, Multiply]"
  by code_simp

text \<open>
  Claim C7. On \<open>a = 6\<close>, \<open>b = 0\<close> and \<^verbatim>\<open>'/'\<close> the program prints the diagnostic and a
  newline, and returns a status other than 0.
\<close>

theorem scenario_6_0_slash:
  "main 6 0 CHR ''/'' = Exited (- 1) (''Cannot divide by 0!'' @ endl) []
   \<and> status (main 6 0 CHR ''/'') \<noteq> 0"
  by (simp add: run_defs)

text \<open>
  Claim C4 says that on \<open>a = 6\<close>, \<open>b = 3\<close> and \<^verbatim>\<open>'+'\<close> the program prints 9. It prints
  18: after \<open>add\<close>, the statements of the three later labels run as well, and the last
  assignment is a product. The sum itself would print as 9.
\<close>

theorem scenario_6_3_plus_prints_18:
  "main 6 3 CHR ''+'' = Exited 0 (''18'' @ endl) [Add, Subtract, Multiply, Multiply]
   \<and> show_int (add 6 3) = ''9''"
  by code_simp

text \<open>
  Claim C5 says that on \<open>a = 6\<close>, \<open>b = 3\<close> and \<^verbatim>\<open>'/'\<close> the program prints 2. It prints
  18: the \<^verbatim>\<open>'/'\<close> case calls \<open>multiply\<close>. \<open>divide_c\<close>, which is not called, gives 2.
\<close>

theorem scenario_6_3_slash_prints_18:
  "main 6 3 CHR ''/'' = Exited 0 (''18'' @ endl) [Multiply]
   \<and> divide_c 6 3 = Inr 2"
  by code_simp

text \<open>
  Claim C1 says that for each of the four operators the program prints \<open>a\<close> op \<open>b\<close> and calls
  the matching function only. On \<open>a = 6\<close>, \<open>b = 3\<close> and \<^verbatim>\<open>'-'\<close> it calls \<open>subtract\<close> and
  then \<open>multiply\<close> twice, and prints 18, where the difference would print as 3.
\<close>

theorem dispatch_6_3_minus_prints_18:
  "main 6 3 CHR ''-'' = Exited 0 (''18'' @ endl) [Subtract, Multiply, Multiply]
   \<and> show_int (subtract 6 3) = ''3''"
  by code_simp

text \<open>
  Claim C2 says that the diagnostic and the status other than 0 come exactly when the
  operator is \<^verbatim>\<open>'/'\<close> and \<open>b\<close> is zero. On \<open>a = 6\<close>, \<open>b = 0\<close> and \<^verbatim>\<open>'+'\<close> the program
  prints the diagnostic too and returns \<open>- 1\<close>, after calling the other three functions.
\<close>

theorem diagnostic_6_0_plus:
  "main 6 0 CHR ''+'' = Exited (- 1) (''Cannot divide by 0!'' @ endl) [Add, Subtract, Multiply]
   \<and> status (main 6 0 CHR ''+'') \<noteq> 0"
  by (simp add: run_defs)

end
